theory Spec2Isabelle
  imports Complex_Main
begin

section \<open>Reward relabelling for transitions sampled from a replay buffer\<close>

text \<open>
  A shallow embedding of \<^verbatim>\<open>imitation/policies/replay_buffer_wrapper.py\<close>.
  Exceptions are values of a sum type, mutation of \<^verbatim>\<open>self\<close> is explicit state
  passing, and the random index draws of the storage are an explicit argument.
\<close>

subsection \<open>Errors, devices, arrays\<close>

datatype error =
    AssertionError string
  | NotImplementedError string
  | ValueError string
  | IndexError string
  | RuntimeError string

text \<open>
  Floating-point scalars with the special values that decide what a division by zero
  yields. Finite values are reals: rounding is not modelled, signed zeros are not
  distinguished.
\<close>

datatype fp = Fin real | PosInf | NegInf | NaN

datatype device = Cpu | Cuda nat

text \<open>A torch tensor: its elements (rows along the leading dimension), shape and device.\<close>

record 'x tensor =
  data :: "'x list"
  shape :: "nat list"
  device :: device

text \<open>A numpy array: elements and shape; it always lives on the host.\<close>

record 'x ndarray =
  np_data :: "'x list"
  np_shape :: "nat list"

definition cpu :: "'x tensor \<Rightarrow> 'x tensor" where
  "cpu t = t\<lparr>device := Cpu\<rparr>"

definition reshape :: "'x tensor \<Rightarrow> nat list \<Rightarrow> error + 'x tensor" where
  "reshape t shp =
     (if prod_list shp = prod_list (shape t) then Inr (t\<lparr>shape := shp\<rparr>)
      else Inl (RuntimeError ''shape is invalid for input size''))"

definition to :: "'x tensor \<Rightarrow> device \<Rightarrow> 'x tensor" where
  "to t d = t\<lparr>device := d\<rparr>"

definition unsqueeze :: "'x tensor \<Rightarrow> nat \<Rightarrow> 'x tensor" where
  "unsqueeze t d = t\<lparr>shape := take d (shape t) @ [1] @ drop d (shape t)\<rparr>"

subsection \<open>Sampled batches and the reward function\<close>

text \<open>\<^verbatim>\<open>ReplayBufferSamples\<close>, with its fields in constructor order.\<close>

record ('o, 'a) ReplayBufferSamples =
  observations :: "'o tensor"
  actions :: "'a tensor"
  next_observations :: "'o tensor"
  dones :: "bool tensor"
  rewards :: "fp tensor"

text \<open>The keyword arguments a \<^verbatim>\<open>RewardFn\<close> is called with.\<close>

record ('o, 'a) reward_fn_input =
  state :: "'o ndarray"
  action :: "'a ndarray"
  next_state :: "'o ndarray"
  done' :: "bool ndarray"

type_synonym ('o, 'a) RewardFn = "('o, 'a) reward_fn_input \<Rightarrow> error + fp ndarray"

text \<open>
  \<^verbatim>\<open>_samples_to_reward_fn_input\<close>: every field is moved to the host and converted.
  After \<^verbatim>\<open>.cpu()\<close> the conversion cannot fail.
\<close>

definition to_numpy :: "'x tensor \<Rightarrow> 'x ndarray" where
  "to_numpy t = \<lparr>np_data = data (cpu t), np_shape = shape (cpu t)\<rparr>"

definition samples_to_reward_fn_input ::
    "('o, 'a) ReplayBufferSamples \<Rightarrow> ('o, 'a) reward_fn_input" where
  "samples_to_reward_fn_input samples =
     \<lparr>state = to_numpy (observations samples),
      action = to_numpy (actions samples),
      next_state = to_numpy (next_observations samples),
      done' = to_numpy (dones samples)\<rparr>"

subsection \<open>The underlying circular storage\<close>

text \<open>
  Modelled from the spec: the underlying storage is the stable-baselines3
  \<^verbatim>\<open>ReplayBuffer\<close>, which is not part of the sources. The spec describes it as
  pre-allocated arrays of capacity \<open>C\<close> with a write cursor \<open>pos\<close> (next write index,
  wrapping modulo \<open>C\<close>) and a flag \<open>full\<close> (true once the cursor has wrapped); the
  occupied range is \<open>[0, pos)\<close> if not full, else \<open>[0, C)\<close>; sampling draws indices
  uniformly with replacement over the occupied slots. The arrays are allocated
  zero-filled, one row per slot (a single environment).
\<close>

record ('o, 'a) ReplayBuffer =
  buffer_size :: nat
  obs_shape :: "nat list"
  action_dim :: nat
  rb_observations :: "'o list"
  rb_next_observations :: "'o list"
  rb_actions :: "'a list"
  rb_rewards :: "fp list"
  rb_dones :: "bool list"
  rb_pos :: nat
  rb_full :: bool
  rb_device :: device

datatype space =
    Box "nat list"
  | Discrete nat
  | MultiDiscrete "nat list"
  | MultiBinary nat
  | Dict "(string \<times> space) list"

datatype kwarg = Device device | IntArg int | BoolArg bool

type_synonym kwargs = "(string \<times> kwarg) list"

fun get_obs_shape :: "space \<Rightarrow> nat list" where
  "get_obs_shape (Box shp) = shp"
| "get_obs_shape (Discrete n) = [1]"
| "get_obs_shape (MultiDiscrete ns) = [length ns]"
| "get_obs_shape (MultiBinary n) = [n]"
| "get_obs_shape (Dict kvs) = []"

fun get_action_dim :: "space \<Rightarrow> nat" where
  "get_action_dim (Box shp) = prod_list shp"
| "get_action_dim (Discrete n) = 1"
| "get_action_dim (MultiDiscrete ns) = length ns"
| "get_action_dim (MultiBinary n) = n"
| "get_action_dim (Dict kvs) = 0"

definition get_device :: "kwargs \<Rightarrow> device" where
  "get_device kw = (case map_of kw ''device'' of Some (Device d) \<Rightarrow> d | _ \<Rightarrow> Cpu)"

definition ReplayBuffer_init ::
    "nat \<Rightarrow> space \<Rightarrow> space \<Rightarrow> kwargs \<Rightarrow> ('o::zero, 'a::zero) ReplayBuffer" where
  "ReplayBuffer_init capacity observation_space action_space kw =
     \<lparr>buffer_size = capacity,
      obs_shape = get_obs_shape observation_space,
      action_dim = get_action_dim action_space,
      rb_observations = replicate capacity 0,
      rb_next_observations = replicate capacity 0,
      rb_actions = replicate capacity 0,
      rb_rewards = replicate capacity (Fin 0),
      rb_dones = replicate capacity False,
      rb_pos = 0,
      rb_full = False,
      rb_device = get_device kw\<rparr>"

text \<open>One transition, as the arguments of \<^verbatim>\<open>add\<close>.\<close>

record ('o, 'a) transition =
  t_obs :: 'o
  t_next_obs :: 'o
  t_action :: 'a
  t_reward :: fp
  t_done :: bool

definition rb_add ::
    "('o, 'a) ReplayBuffer \<Rightarrow> ('o, 'a) transition \<Rightarrow> error + ('o, 'a) ReplayBuffer" where
  "rb_add rb t =
     (if rb_pos rb \<ge> length (rb_observations rb) then
        Inl (IndexError ''index out of bounds'')
      else
        let p = rb_pos rb;
            rb = rb\<lparr>rb_observations := (rb_observations rb)[p := t_obs t],
                    rb_next_observations := (rb_next_observations rb)[p := t_next_obs t],
                    rb_actions := (rb_actions rb)[p := t_action t],
                    rb_rewards := (rb_rewards rb)[p := t_reward t],
                    rb_dones := (rb_dones rb)[p := t_done t]\<rparr>;
            rb = rb\<lparr>rb_pos := p + 1\<rparr>
        in Inr (if rb_pos rb = buffer_size rb then rb\<lparr>rb_full := True, rb_pos := 0\<rparr> else rb))"

text \<open>
  The occupied slots of the storage. With the write cursor inside the arrays this is the
  prefix \<open>[0, pos)\<close> when not full and every slot otherwise.
\<close>

definition rb_occupied :: "('o, 'a) ReplayBuffer \<Rightarrow> 'o list" where
  "rb_occupied rb =
     (if rb_full rb then rb_observations rb else take (rb_pos rb) (rb_observations rb))"

text \<open>
  Sampling: \<open>draws\<close> are the raw random numbers, one per requested transition; each is
  reduced to an index below the number of occupied slots. Drawing from an empty range
  raises, as does an index outside the arrays.
\<close>

definition rb_sample ::
    "('o, 'a) ReplayBuffer \<Rightarrow> nat list \<Rightarrow> error + ('o, 'a) ReplayBufferSamples" where
  "rb_sample rb draws =
     (let upper_bound = (if rb_full rb then buffer_size rb else rb_pos rb) in
      if upper_bound = 0 then Inl (ValueError ''low >= high'')
      else
        let batch_inds = map (\<lambda>r. r mod upper_bound) draws;
            n = length batch_inds
        in if \<exists>i \<in> set batch_inds. i \<ge> length (rb_observations rb) then
             Inl (IndexError ''index out of bounds'')
           else
             Inr \<lparr>observations =
                    \<lparr>data = map (\<lambda>i. rb_observations rb ! i) batch_inds,
                     shape = n # obs_shape rb, device = rb_device rb\<rparr>,
                  actions =
                    \<lparr>data = map (\<lambda>i. rb_actions rb ! i) batch_inds,
                     shape = [n, action_dim rb], device = rb_device rb\<rparr>,
                  next_observations =
                    \<lparr>data = map (\<lambda>i. rb_next_observations rb ! i) batch_inds,
                     shape = n # obs_shape rb, device = rb_device rb\<rparr>,
                  dones =
                    \<lparr>data = map (\<lambda>i. rb_dones rb ! i) batch_inds,
                     shape = [n, 1], device = rb_device rb\<rparr>,
                  rewards =
                    \<lparr>data = map (\<lambda>i. rb_rewards rb ! i) batch_inds,
                     shape = [n, 1], device = rb_device rb\<rparr>\<rparr>)"

subsection \<open>Float arithmetic on tensors\<close>

text \<open>
  Subtraction and division of floats, with the IEEE results for the special values:
  a non-zero finite value divided by zero is an infinity, zero divided by zero is NaN,
  and NaN propagates.
\<close>

fun fsub :: "fp \<Rightarrow> fp \<Rightarrow> fp" where
  "fsub NaN y = NaN"
| "fsub x NaN = NaN"
| "fsub (Fin a) (Fin b) = Fin (a - b)"
| "fsub (Fin a) PosInf = NegInf"
| "fsub (Fin a) NegInf = PosInf"
| "fsub PosInf PosInf = NaN"
| "fsub PosInf y = PosInf"
| "fsub NegInf NegInf = NaN"
| "fsub NegInf y = NegInf"

fun fdiv :: "fp \<Rightarrow> fp \<Rightarrow> fp" where
  "fdiv NaN y = NaN"
| "fdiv x NaN = NaN"
| "fdiv (Fin a) (Fin b) =
     (if b = 0 then (if a = 0 then NaN else if 0 < a then PosInf else NegInf)
      else Fin (a / b))"
| "fdiv (Fin a) y = Fin 0"
| "fdiv PosInf (Fin b) = (if 0 \<le> b then PosInf else NegInf)"
| "fdiv NegInf (Fin b) = (if 0 \<le> b then NegInf else PosInf)"
| "fdiv x y = NaN"

text \<open>The in-place operators \<^verbatim>\<open>-=\<close> and \<^verbatim>\<open>/=\<close> with a one-element operand (broadcast).\<close>

definition isub :: "fp ndarray \<Rightarrow> fp \<Rightarrow> fp ndarray" where
  "isub arr m = arr\<lparr>np_data := map (\<lambda>e. fsub e m) (np_data arr)\<rparr>"

definition idiv :: "fp ndarray \<Rightarrow> fp \<Rightarrow> fp ndarray" where
  "idiv arr s = arr\<lparr>np_data := map (\<lambda>e. fdiv e s) (np_data arr)\<rparr>"

subsection \<open>The helpers of \<^verbatim>\<open>imitation.util.util\<close>\<close>

text \<open>
  The module \<^verbatim>\<open>imitation.util.util\<close> is not part of the sources. The
  nearest-neighbour entropy estimate and the running mean/variance accumulator with
  state \<open>'s\<close> (its constructor, its update and its two readings) are taken as
  parameters, collected in one record.
\<close>

record ('o, 's) util =
  compute_state_entropy :: "'o tensor \<Rightarrow> 'o list \<Rightarrow> int \<Rightarrow> error + fp ndarray"
  RunningMeanAndVar :: "nat list \<Rightarrow> 's"
  stats_update :: "'s \<Rightarrow> fp ndarray \<Rightarrow> 's"
  stats_mean :: "'s \<Rightarrow> fp"
  stats_std :: "'s \<Rightarrow> fp"

text \<open>
  Modelled from the spec: \<^verbatim>\<open>util.safe_to_tensor\<close> is not part of the sources. The spec
  has the new reward be the computed values, matched to the shape and device of the
  original reward field; the conversion therefore keeps elements and shape, and its
  result is on the host.
\<close>

definition safe_to_tensor :: "fp ndarray \<Rightarrow> fp tensor" where
  "safe_to_tensor a = \<lparr>data = np_data a, shape = np_shape a, device = Cpu\<rparr>"

subsection \<open>\<^verbatim>\<open>ReplayBufferRewardWrapper\<close>\<close>

text \<open>
  The classes that can be passed as \<^verbatim>\<open>replay_buffer_class\<close>: the storage class
  itself, a class derived from another one, or a class outside the hierarchy.
\<close>

datatype buffer_class =
    ReplayBuffer_class
  | Derived string buffer_class
  | Unrelated string

fun issubclass_ReplayBuffer :: "buffer_class \<Rightarrow> bool" where
  "issubclass_ReplayBuffer ReplayBuffer_class = True"
| "issubclass_ReplayBuffer (Derived name parent) = issubclass_ReplayBuffer parent"
| "issubclass_ReplayBuffer (Unrelated name) = False"

fun isinstance_Dict :: "space \<Rightarrow> bool" where
  "isinstance_Dict (Dict kvs) = True"
| "isinstance_Dict other = False"

text \<open>
  The wrapper holds the wrapped storage and the reward function. It is itself an
  instance of the storage class: \<^verbatim>\<open>super().__init__\<close> allocates the wrapper's own arrays,
  of which \<^verbatim>\<open>self.observations\<close> is the one the code reads. Its \<open>pos\<close> and \<open>full\<close>
  are properties, not fields.
\<close>

record ('o, 'a) ReplayBufferRewardWrapper =
  replay_buffer :: "('o, 'a) ReplayBuffer"
  reward_fn :: "('o, 'a) RewardFn"
  self_observations :: "'o list"

definition pos :: "('o, 'a, 'z) ReplayBufferRewardWrapper_scheme \<Rightarrow> nat" where
  "pos self = rb_pos (replay_buffer self)"

definition pos_setter ::
    "('o, 'a, 'z) ReplayBufferRewardWrapper_scheme \<Rightarrow> nat
      \<Rightarrow> ('o, 'a, 'z) ReplayBufferRewardWrapper_scheme" where
  "pos_setter self v = self\<lparr>replay_buffer := (replay_buffer self)\<lparr>rb_pos := v\<rparr>\<rparr>"

definition full :: "('o, 'a, 'z) ReplayBufferRewardWrapper_scheme \<Rightarrow> bool" where
  "full self = rb_full (replay_buffer self)"

definition full_setter ::
    "('o, 'a, 'z) ReplayBufferRewardWrapper_scheme \<Rightarrow> bool
      \<Rightarrow> ('o, 'a, 'z) ReplayBufferRewardWrapper_scheme" where
  "full_setter self v = self\<lparr>replay_buffer := (replay_buffer self)\<lparr>rb_full := v\<rparr>\<rparr>"

text \<open>
  \<^verbatim>\<open>__init__\<close>: the two assertions, the wrapped storage, then the base-class
  initialiser on the wrapper itself with the keyword arguments it accepts. The base
  initialiser assigns \<open>pos = 0\<close> and \<open>full = False\<close>, which go through the setters.
\<close>

definition wrapper_init ::
    "nat \<Rightarrow> space \<Rightarrow> space \<Rightarrow> buffer_class \<Rightarrow> ('o::zero, 'a::zero) RewardFn \<Rightarrow> kwargs
      \<Rightarrow> error + ('o, 'a) ReplayBufferRewardWrapper" where
  "wrapper_init bsize observation_space action_space replay_buffer_class rfn kw =
     (if replay_buffer_class \<noteq> ReplayBuffer_class then
        Inl (AssertionError ''only ReplayBuffer is supported'')
      else if isinstance_Dict observation_space then
        Inl (AssertionError [])
      else
        let rb = ReplayBuffer_init bsize observation_space action_space kw;
            base_kwargs = filter (\<lambda>(k, v). k \<in> set [''device'', ''n_envs'']) kw;
            base = (ReplayBuffer_init bsize observation_space action_space base_kwargs
                      :: ('o, 'a) ReplayBuffer);
            self = \<lparr>replay_buffer = rb, reward_fn = rfn,
                    self_observations = rb_observations base\<rparr>
        in Inr (full_setter (pos_setter self 0) False))"

definition sample ::
    "('o, 'a, 'z) ReplayBufferRewardWrapper_scheme \<Rightarrow> nat list
      \<Rightarrow> error + ('o, 'a) ReplayBufferSamples" where
  "sample self draws =
     (case rb_sample (replay_buffer self) draws of
        Inl e \<Rightarrow> Inl e
      | Inr samples \<Rightarrow>
          (case reward_fn self (samples_to_reward_fn_input samples) of
             Inl e \<Rightarrow> Inl e
           | Inr rews \<Rightarrow>
               let shp = shape (rewards samples);
                   dev = device (rewards samples)
               in (case reshape (safe_to_tensor rews) shp of
                     Inl e \<Rightarrow> Inl e
                   | Inr t \<Rightarrow>
                       Inr \<lparr>observations = observations samples,
                            actions = actions samples,
                            next_observations = next_observations samples,
                            dones = dones samples,
                            rewards = to t dev\<rparr>)))"

definition add ::
    "('o, 'a, 'z) ReplayBufferRewardWrapper_scheme \<Rightarrow> ('o, 'a) transition
      \<Rightarrow> error + ('o, 'a, 'z) ReplayBufferRewardWrapper_scheme" where
  "add self t =
     (case rb_add (replay_buffer self) t of
        Inl e \<Rightarrow> Inl e
      | Inr rb \<Rightarrow> Inr (self\<lparr>replay_buffer := rb\<rparr>))"


subsection \<open>\<^verbatim>\<open>ReplayBufferEntropyRewardWrapper\<close>\<close>

record ('o, 'a, 's) ReplayBufferEntropyRewardWrapper =
  "('o, 'a) ReplayBufferRewardWrapper" +
  sample_count :: int
  self_k :: int
  entropy_stats :: 's
  entropy_as_reward_samples :: int

definition entropy_wrapper_init ::
    "('o, 's) util \<Rightarrow> nat \<Rightarrow> space \<Rightarrow> space \<Rightarrow> buffer_class \<Rightarrow> ('o::zero, 'a::zero) RewardFn
      \<Rightarrow> int \<Rightarrow> int \<Rightarrow> kwargs \<Rightarrow> error + ('o, 'a, 's) ReplayBufferEntropyRewardWrapper" where
  "entropy_wrapper_init u bsize observation_space action_space replay_buffer_class rfn
       n_samples kk kw =
     (case wrapper_init bsize observation_space action_space replay_buffer_class rfn kw of
        Inl e \<Rightarrow> Inl e
      | Inr self \<Rightarrow>
          Inr \<lparr>replay_buffer = replay_buffer self,
               reward_fn = reward_fn self,
               self_observations = self_observations self,
               sample_count = 0,
               self_k = kk,
               entropy_stats = RunningMeanAndVar u [1],
               entropy_as_reward_samples = n_samples\<rparr>)"

text \<open>The neighbour pool that \<^verbatim>\<open>sample\<close> hands to the entropy estimate.\<close>

definition all_obs :: "('o, 'a, 'z) ReplayBufferRewardWrapper_scheme \<Rightarrow> 'o list" where
  "all_obs self =
     (if full self then self_observations self
      else take (pos self) (self_observations self))"

text \<open>
  \<^verbatim>\<open>sample\<close> of the entropy wrapper. It returns the updated wrapper together with the
  batch or the exception: the counter is assigned before anything can raise, and the
  accumulator is updated before the division.
\<close>

definition entropy_sample ::
    "('o, 's) util \<Rightarrow> ('o, 'a, 's) ReplayBufferEntropyRewardWrapper \<Rightarrow> nat list
      \<Rightarrow> ('o, 'a, 's) ReplayBufferEntropyRewardWrapper \<times> (error + ('o, 'a) ReplayBufferSamples)"
  where
  "entropy_sample u self draws =
     (let self = self\<lparr>sample_count := sample_count self + 1\<rparr> in
      case sample self draws of
        Inl e \<Rightarrow> (self, Inl e)
      | Inr samples \<Rightarrow>
          if sample_count self > entropy_as_reward_samples self then (self, Inr samples)
          else
            (case compute_state_entropy u (unsqueeze (observations samples) 1)
                    (all_obs self) (self_k self) of
               Inl e \<Rightarrow> (self, Inl e)
             | Inr entropies \<Rightarrow>
                 let self = self\<lparr>entropy_stats :=
                              stats_update u (entropy_stats self) entropies\<rparr>;
                     entropies = isub entropies (stats_mean u (entropy_stats self));
                     entropies = idiv entropies (stats_std u (entropy_stats self))
                 in (case reshape (safe_to_tensor entropies) (shape (rewards samples)) of
                       Inl e \<Rightarrow> (self, Inl e)
                     | Inr t \<Rightarrow>
                         (self,
                          Inr \<lparr>observations = observations samples,
                               actions = actions samples,
                               next_observations = next_observations samples,
                               dones = dones samples,
                               rewards = to t (device (rewards samples))\<rparr>))))"

subsection \<open>Sequences of calls\<close>

text \<open>
  The calls a client makes on an entropy wrapper during its lifetime. A call that
  raises leaves the wrapper as the call left it when the exception was thrown.
\<close>

datatype ('o, 'a) call =
    Add "('o, 'a) transition"
  | Sample "nat list"
  | SetPos nat
  | SetFull bool

fun is_Sample :: "('o, 'a) call \<Rightarrow> bool" where
  "is_Sample (Sample draws) = True"
| "is_Sample other = False"

fun step ::
    "('o, 's) util \<Rightarrow> ('o, 'a, 's) ReplayBufferEntropyRewardWrapper \<Rightarrow> ('o, 'a) call
      \<Rightarrow> ('o, 'a, 's) ReplayBufferEntropyRewardWrapper" where
  "step u self (Add t) = (case add self t of Inl e \<Rightarrow> self | Inr self' \<Rightarrow> self')"
| "step u self (Sample draws) = fst (entropy_sample u self draws)"
| "step u self (SetPos v) = pos_setter self v"
| "step u self (SetFull v) = full_setter self v"

definition run ::
    "('o, 's) util \<Rightarrow> ('o, 'a, 's) ReplayBufferEntropyRewardWrapper \<Rightarrow> ('o, 'a) call list
      \<Rightarrow> ('o, 'a, 's) ReplayBufferEntropyRewardWrapper" where
  "run u self calls = foldl (step u) self calls"

subsection \<open>A one-dimensional instance of the helpers\<close>

text \<open>
  Modelled from the spec: \<^verbatim>\<open>util.compute_state_entropy\<close> is not part of the sources.
  The spec has it compute, for each sampled observation, the distance to its k-th nearest
  neighbour among the pool it is given. Here observations are single reals, the distance
  is the absolute difference, and the k-th smallest distance is taken, counting from one.
  A pool with fewer than k entries is an error.
\<close>

definition knn_distance :: "real list \<Rightarrow> int \<Rightarrow> real \<Rightarrow> real" where
  "knn_distance pool kk x = sort (map (\<lambda>y. \<bar>x - y\<bar>) pool) ! nat (kk - 1)"

definition compute_state_entropy_1d :: "real tensor \<Rightarrow> real list \<Rightarrow> int \<Rightarrow> error + fp ndarray"
  where
  "compute_state_entropy_1d obs pool kk =
     (if kk < 1 \<or> int (length pool) < kk then Inl (RuntimeError ''k out of range'')
      else Inr \<lparr>np_data = map (\<lambda>x. Fin (knn_distance pool kk x)) (data obs),
                np_shape = [length (data obs), 1]\<rparr>)"

text \<open>
  Modelled from the spec: \<^verbatim>\<open>util.RunningMeanAndVar\<close> is not part of the sources. The
  spec has it track the mean and the standard deviation of a scalar stream, updated with
  each batch. The state is the stream seen so far; the readings are its mean and its
  (population) standard deviation, NaN for an empty stream or one with a non-finite value.
\<close>

fun finite_values :: "fp list \<Rightarrow> real list option" where
  "finite_values [] = Some []"
| "finite_values (Fin a # xs) = map_option ((#) a) (finite_values xs)"
| "finite_values (x # xs) = None"

definition stream_mean :: "fp list \<Rightarrow> fp" where
  "stream_mean s =
     (case finite_values s of
        None \<Rightarrow> NaN
      | Some xs \<Rightarrow> if xs = [] then NaN else Fin (sum_list xs / real (length xs)))"

definition stream_std :: "fp list \<Rightarrow> fp" where
  "stream_std s =
     (case finite_values s of
        None \<Rightarrow> NaN
      | Some xs \<Rightarrow>
          if xs = [] then NaN
          else
            let m = sum_list xs / real (length xs)
            in Fin (sqrt (sum_list (map (\<lambda>x. (x - m)\<^sup>2) xs) / real (length xs))))"

definition util_1d :: "(real, fp list) util" where
  "util_1d =
     \<lparr>compute_state_entropy = compute_state_entropy_1d,
      RunningMeanAndVar = (\<lambda>shp. []),
      stats_update = (\<lambda>s x. s @ np_data x),
      stats_mean = stream_mean,
      stats_std = stream_std\<rparr>"

text \<open>A reward function that labels every transition of a batch with the same value.\<close>

definition const_reward_fn :: "real \<Rightarrow> (real, real) RewardFn" where
  "const_reward_fn c inp =
     Inr \<lparr>np_data = replicate (length (np_data (state inp))) (Fin c),
          np_shape = [length (np_data (state inp))]\<rparr>"

text \<open>A transition that observes \<open>x\<close>, with everything else zero.\<close>

definition observe :: "real \<Rightarrow> (real, real) transition" where
  "observe x = \<lparr>t_obs = x, t_next_obs = 0, t_action = 0, t_reward = Fin 0, t_done = False\<rparr>"

text \<open>A reward function that raises.\<close>

definition failing_reward_fn :: "(real, real) RewardFn" where
  "failing_reward_fn inp = Inl (RuntimeError ''reward network failed'')"

subsection \<open>The scenario of the spec\<close>

text \<open>
  Capacity 10, one-dimensional observations, warmup budget \<open>n\<close> and neighbour count
  \<open>kk\<close>: the wrapper as constructed, and the wrapper after five transitions observing
  1, 2, 3, 4 and 5 have been added.
\<close>

definition fresh_buffer :: "int \<Rightarrow> int \<Rightarrow> (real, real, fp list) ReplayBufferEntropyRewardWrapper"
  where
  "fresh_buffer n kk =
     \<lparr>replay_buffer = ReplayBuffer_init 10 (Box [1]) (Box [1]) [],
      reward_fn = const_reward_fn 7,
      self_observations = replicate 10 0,
      sample_count = 0,
      self_k = kk,
      entropy_stats = [],
      entropy_as_reward_samples = n\<rparr>"

definition five_added :: "int \<Rightarrow> int \<Rightarrow> (real, real, fp list) ReplayBufferEntropyRewardWrapper"
  where
  "five_added n kk =
     run util_1d (fresh_buffer n kk)
       [Add (observe 1), Add (observe 2), Add (observe 3), Add (observe 4), Add (observe 5)]"

text \<open>The batch that the storage of \<open>five_added\<close> returns for the draws 0 and 2.\<close>

definition drawn_batch :: "(real, real) ReplayBufferSamples" where
  "drawn_batch =
     \<lparr>observations = \<lparr>data = [1, 3], shape = [2, 1], device = Cpu\<rparr>,
      actions = \<lparr>data = [0, 0], shape = [2, 1], device = Cpu\<rparr>,
      next_observations = \<lparr>data = [0, 0], shape = [2, 1], device = Cpu\<rparr>,
      dones = \<lparr>data = [False, False], shape = [2, 1], device = Cpu\<rparr>,
      rewards = \<lparr>data = [Fin 0, Fin 0], shape = [2, 1], device = Cpu\<rparr>\<rparr>"

section \<open>Basic facts\<close>

subsection \<open>What the base \<^verbatim>\<open>sample\<close> and the pool depend on\<close>

lemma sample_count_irrelevant:
  "sample (self\<lparr>sample_count := c\<rparr>) draws = sample self draws"
  by (simp add: sample_def cong: sum.case_cong)

lemma sample_stats_irrelevant:
  "sample (self\<lparr>entropy_stats := st\<rparr>) draws = sample self draws"
  by (simp add: sample_def cong: sum.case_cong)

lemma all_obs_count_irrelevant:
  "all_obs (self\<lparr>sample_count := c\<rparr>) = all_obs self"
  by (simp add: all_obs_def full_def pos_def)

lemma all_obs_stats_irrelevant:
  "all_obs (self\<lparr>entropy_stats := st\<rparr>) = all_obs self"
  by (simp add: all_obs_def full_def pos_def)

lemma sample_Inr_iff:
  "sample self draws = Inr b \<longleftrightarrow>
     (\<exists>s r t. rb_sample (replay_buffer self) draws = Inr s
        \<and> reward_fn self (samples_to_reward_fn_input s) = Inr r
        \<and> reshape (safe_to_tensor r) (shape (rewards s)) = Inr t
        \<and> b = s\<lparr>rewards := to t (device (rewards s))\<rparr>)"
  by (auto simp: sample_def Let_def split: sum.splits)

lemma entropy_sample_frame:
  "snd (entropy_sample u self draws) = Inr b \<Longrightarrow>
    \<exists>s. rb_sample (replay_buffer self) draws = Inr s
        \<and> observations b = observations s \<and> actions b = actions s
        \<and> next_observations b = next_observations s \<and> dones b = dones s"
  by (auto simp: entropy_sample_def sample_count_irrelevant sample_Inr_iff Let_def
      split: sum.splits if_splits)

lemma wrapper_init_cases:
  "wrapper_init bsize ospace aspace cls rfn kw =
     (if cls \<noteq> ReplayBuffer_class then Inl (AssertionError ''only ReplayBuffer is supported'')
      else if isinstance_Dict ospace then Inl (AssertionError [])
      else Inr \<lparr>replay_buffer = ReplayBuffer_init bsize ospace aspace kw, reward_fn = rfn,
                self_observations = replicate bsize 0\<rparr>)"
  by (simp add: wrapper_init_def Let_def ReplayBuffer_init_def pos_setter_def full_setter_def)

subsection \<open>The counter, the budget and the wrapper's own array along a run\<close>

lemma entropy_sample_count:
  "sample_count (fst (entropy_sample u self draws)) = sample_count self + 1"
  by (simp add: entropy_sample_def Let_def split: sum.splits)

lemma entropy_sample_budget:
  "entropy_as_reward_samples (fst (entropy_sample u self draws)) = entropy_as_reward_samples self"
  by (simp add: entropy_sample_def Let_def split: sum.splits)

lemma entropy_sample_self_observations:
  "self_observations (fst (entropy_sample u self draws)) = self_observations self"
  by (simp add: entropy_sample_def Let_def split: sum.splits)

lemma step_count:
  "sample_count (step u self c) = sample_count self + (if is_Sample c then 1 else 0)"
  by (cases c) (simp_all add: entropy_sample_count add_def pos_setter_def full_setter_def
      split: sum.splits)

lemma step_budget:
  "entropy_as_reward_samples (step u self c) = entropy_as_reward_samples self"
  by (cases c) (simp_all add: entropy_sample_budget add_def pos_setter_def full_setter_def
      split: sum.splits)

lemma step_self_observations:
  "self_observations (step u self c) = self_observations self"
  by (cases c) (simp_all add: entropy_sample_self_observations add_def pos_setter_def
      full_setter_def split: sum.splits)

lemma run_count:
  "sample_count (run u self calls) = sample_count self + int (length (filter is_Sample calls))"
  unfolding run_def
  by (induction calls arbitrary: self) (simp_all add: step_count)

lemma run_budget:
  "entropy_as_reward_samples (run u self calls) = entropy_as_reward_samples self"
  unfolding run_def
  by (induction calls arbitrary: self) (simp_all add: step_budget)

lemma run_self_observations:
  "self_observations (run u self calls) = self_observations self"
  unfolding run_def
  by (induction calls arbitrary: self) (simp_all add: step_self_observations)

text \<open>
  The wrapper's own array is allocated zero-filled and no call writes it, so the pool of
  a constructed wrapper holds nothing but zeros, whatever has been added.
\<close>

lemma pool_never_written:
  assumes "entropy_wrapper_init u bsize ospace aspace cls rfn n kk kw = Inr w"
  shows "set (all_obs (run u w calls)) \<subseteq> {0}"
proof -
  have "self_observations w = replicate bsize 0"
    using assms
    by (auto simp: entropy_wrapper_init_def wrapper_init_cases split: sum.splits if_splits)
  then have "self_observations (run u w calls) = replicate bsize 0"
    by (simp add: run_self_observations)
  then show ?thesis
    using set_take_subset [of "pos (run u w calls)" "replicate bsize (0::'a)"]
    by (auto simp: all_obs_def)
qed

subsection \<open>The two branches of the entropy wrapper's \<^verbatim>\<open>sample\<close>\<close>

lemma steady_state:
  "sample_count self + 1 > entropy_as_reward_samples self \<Longrightarrow>
     snd (entropy_sample u self draws) = sample self draws"
  by (simp add: entropy_sample_def Let_def sample_count_irrelevant split: sum.splits)

lemma warmup_result:
  assumes "sample_count self + 1 \<le> entropy_as_reward_samples self"
    and "entropy_sample u self draws = (self', Inr b)"
  shows "\<exists>s raw. sample self draws = Inr s
     \<and> compute_state_entropy u (unsqueeze (observations s) 1) (all_obs self) (self_k self)
          = Inr raw
     \<and> entropy_stats self' = stats_update u (entropy_stats self) raw
     \<and> rewards b =
         \<lparr>data = map (\<lambda>e. fdiv (fsub e (stats_mean u (entropy_stats self')))
                               (stats_std u (entropy_stats self'))) (np_data raw),
          shape = shape (rewards s), device = device (rewards s)\<rparr>"
  using assms
  by (auto simp: entropy_sample_def Let_def sample_count_irrelevant all_obs_count_irrelevant
      isub_def idiv_def reshape_def safe_to_tensor_def to_def
      split: sum.splits if_splits)

lemma fdiv_zero_not_finite: "fdiv x (Fin 0) \<noteq> Fin a"
  by (cases x) simp_all

subsection \<open>The scenario, evaluated\<close>

lemma init_fresh:
  "entropy_wrapper_init util_1d 10 (Box [1]) (Box [1]) ReplayBuffer_class (const_reward_fn 7)
     n kk [] = Inr (fresh_buffer n kk)"
  by (simp add: entropy_wrapper_init_def wrapper_init_def Let_def fresh_buffer_def
      ReplayBuffer_init_def pos_setter_def full_setter_def util_1d_def)

lemma five_added_storage:
  "replay_buffer (five_added n kk) =
     \<lparr>buffer_size = 10, obs_shape = [1], action_dim = 1,
      rb_observations = [1, 2, 3, 4, 5, 0, 0, 0, 0, 0],
      rb_next_observations = [0, 0, 0, 0, 0, 0, 0, 0, 0, 0],
      rb_actions = [0, 0, 0, 0, 0, 0, 0, 0, 0, 0],
      rb_rewards = [Fin 0, Fin 0, Fin 0, Fin 0, Fin 0, Fin 0, Fin 0, Fin 0, Fin 0, Fin 0],
      rb_dones = [False, False, False, False, False, False, False, False, False, False],
      rb_pos = 5, rb_full = False, rb_device = Cpu\<rparr>"
  by (simp add: five_added_def fresh_buffer_def run_def add_def rb_add_def observe_def
      ReplayBuffer_init_def get_device_def Let_def eval_nat_numeral)

lemma five_added_rest:
  "self_observations (five_added n kk) = [0, 0, 0, 0, 0, 0, 0, 0, 0, 0]
   \<and> reward_fn (five_added n kk) = const_reward_fn 7
   \<and> sample_count (five_added n kk) = 0 \<and> self_k (five_added n kk) = kk
   \<and> entropy_stats (five_added n kk) = []
   \<and> entropy_as_reward_samples (five_added n kk) = n"
  by (simp add: five_added_def fresh_buffer_def run_def add_def rb_add_def observe_def
      ReplayBuffer_init_def get_device_def Let_def eval_nat_numeral)

lemma five_added_start:
  "five_added n kk = (five_added n kk)\<lparr>sample_count := 0, entropy_stats := []\<rparr>"
proof -
  have "five_added n kk = (five_added n kk)\<lparr>sample_count := sample_count (five_added n kk),
      entropy_stats := entropy_stats (five_added n kk)\<rparr>"
    by simp
  then show ?thesis
    by (simp only: five_added_rest)
qed

lemma storage_draw:
  "rb_sample (replay_buffer (five_added n kk)) [0, 2] = Inr drawn_batch"
  by (simp add: five_added_storage rb_sample_def drawn_batch_def Let_def)

lemma sample_five_added:
  "sample (five_added n kk) [0, 2]
     = Inr (drawn_batch\<lparr>rewards := \<lparr>data = [Fin 7, Fin 7], shape = [2, 1], device = Cpu\<rparr>\<rparr>)"
  by (simp add: sample_def storage_draw five_added_rest const_reward_fn_def
      samples_to_reward_fn_input_def to_numpy_def cpu_def drawn_batch_def reshape_def
      safe_to_tensor_def to_def Let_def)

lemma all_obs_five: "all_obs (five_added n kk) = [0, 0, 0, 0, 0]"
  by (simp add: all_obs_def full_def pos_def five_added_storage five_added_rest)

lemma occupied_five: "rb_occupied (replay_buffer (five_added n kk)) = [1, 2, 3, 4, 5]"
  by (simp add: rb_occupied_def five_added_storage)

lemma warm_general:
  assumes "c + 1 \<le> n"
  shows "entropy_sample util_1d ((five_added n 3)\<lparr>sample_count := c, entropy_stats := st\<rparr>)
      [0, 2] =
   ((five_added n 3)\<lparr>sample_count := c + 1, entropy_stats := st @ [Fin 1, Fin 3]\<rparr>,
    Inr (drawn_batch\<lparr>rewards :=
       \<lparr>data = [fdiv (fsub (Fin 1) (stream_mean (st @ [Fin 1, Fin 3])))
                   (stream_std (st @ [Fin 1, Fin 3])),
                fdiv (fsub (Fin 3) (stream_mean (st @ [Fin 1, Fin 3])))
                   (stream_std (st @ [Fin 1, Fin 3]))],
        shape = [2, 1], device = Cpu\<rparr>\<rparr>))"
  using assms
  apply (simp add: entropy_sample_def Let_def sample_count_irrelevant sample_stats_irrelevant
      all_obs_count_irrelevant all_obs_stats_irrelevant all_obs_five
      sample_five_added five_added_rest)
  apply (simp add: util_1d_def drawn_batch_def compute_state_entropy_1d_def knn_distance_def
      unsqueeze_def isub_def idiv_def reshape_def safe_to_tensor_def to_def)
  done

lemma stats_after_one:
  "stream_mean [Fin 1, Fin 3] = Fin 2 \<and> stream_std [Fin 1, Fin 3] = Fin 1"
  by (simp add: stream_mean_def stream_std_def power2_eq_square)

lemma stats_after_three:
  "stream_mean [Fin 1, Fin 3, Fin 1, Fin 3, Fin 1, Fin 3] = Fin 2
   \<and> stream_std [Fin 1, Fin 3, Fin 1, Fin 3, Fin 1, Fin 3] = Fin 1"
  by (simp add: stream_mean_def stream_std_def power2_eq_square)

lemma first_call:
  "entropy_sample util_1d (five_added n 3) [0, 2] =
     (if 1 \<le> n then
        ((five_added n 3)\<lparr>sample_count := 1, entropy_stats := [Fin 1, Fin 3]\<rparr>,
         Inr (drawn_batch\<lparr>rewards :=
                \<lparr>data = [Fin (- 1), Fin 1], shape = [2, 1], device = Cpu\<rparr>\<rparr>))
      else
        ((five_added n 3)\<lparr>sample_count := 1\<rparr>,
         Inr (drawn_batch\<lparr>rewards :=
                \<lparr>data = [Fin 7, Fin 7], shape = [2, 1], device = Cpu\<rparr>\<rparr>)))"
proof (cases "1 \<le> n")
  case True
  then show ?thesis
    using warm_general [of 0 n "[]"] five_added_start [of n 3]
    by (simp add: stats_after_one)
next
  case False
  then show ?thesis
    by (simp add: entropy_sample_def Let_def sample_count_irrelevant sample_five_added
        five_added_rest)
qed

lemma two_calls:
  "run util_1d (five_added 3 3) [Sample [0, 2], Sample [0, 2]]
     = (five_added 3 3)\<lparr>sample_count := 2, entropy_stats := [Fin 1, Fin 3, Fin 1, Fin 3]\<rparr>"
proof -
  have "run util_1d (five_added 3 3) [Sample [0, 2], Sample [0, 2]]
      = run util_1d ((five_added 3 3)\<lparr>sample_count := 0, entropy_stats := []\<rparr>)
          [Sample [0, 2], Sample [0, 2]]"
    using five_added_start [of 3 3] by simp
  also have "\<dots> = (five_added 3 3)\<lparr>sample_count := 2,
      entropy_stats := [Fin 1, Fin 3, Fin 1, Fin 3]\<rparr>"
    using warm_general [of 0 3 "[]"] warm_general [of 1 3 "[Fin 1, Fin 3]"]
    by (simp add: run_def)
  finally show ?thesis .
qed

lemma third_call:
  "entropy_sample util_1d (run util_1d (five_added 3 3) [Sample [0, 2], Sample [0, 2]]) [0, 2] =
     ((five_added 3 3)\<lparr>sample_count := 3,
         entropy_stats := [Fin 1, Fin 3, Fin 1, Fin 3, Fin 1, Fin 3]\<rparr>,
      Inr (drawn_batch\<lparr>rewards :=
             \<lparr>data = [Fin (- 1), Fin 1], shape = [2, 1], device = Cpu\<rparr>\<rparr>))"
  using warm_general [of 2 3 "[Fin 1, Fin 3, Fin 1, Fin 3]"]
  by (simp add: two_calls stats_after_three)

lemma fourth_call:
  "snd (entropy_sample util_1d
          (run util_1d (five_added 3 3) [Sample [0, 2], Sample [0, 2], Sample [0, 2]]) [0, 2])
     = Inr (drawn_batch\<lparr>rewards := \<lparr>data = [Fin 7, Fin 7], shape = [2, 1], device = Cpu\<rparr>\<rparr>)"
proof -
  have r: "run util_1d (five_added 3 3) [Sample [0, 2], Sample [0, 2], Sample [0, 2]]
      = (five_added 3 3)\<lparr>sample_count := 3,
          entropy_stats := [Fin 1, Fin 3, Fin 1, Fin 3, Fin 1, Fin 3]\<rparr>"
    using third_call two_calls by (simp add: run_def)
  show ?thesis
    by (simp add: r steady_state five_added_rest sample_count_irrelevant
        sample_stats_irrelevant sample_five_added)
qed

lemma degenerate_call:
  "entropy_sample util_1d (five_added 1 3) [0, 0] =
     ((five_added 1 3)\<lparr>sample_count := 1, entropy_stats := [Fin 1, Fin 1]\<rparr>,
      Inr (drawn_batch\<lparr>observations := \<lparr>data = [1, 1], shape = [2, 1], device = Cpu\<rparr>,
             rewards := \<lparr>data = [NaN, NaN], shape = [2, 1], device = Cpu\<rparr>\<rparr>))"
proof -
  have s: "sample (five_added 1 3) [0, 0]
      = Inr (drawn_batch\<lparr>observations := \<lparr>data = [1, 1], shape = [2, 1], device = Cpu\<rparr>,
               rewards := \<lparr>data = [Fin 7, Fin 7], shape = [2, 1], device = Cpu\<rparr>\<rparr>)"
    by (simp add: sample_def five_added_storage rb_sample_def five_added_rest const_reward_fn_def
        samples_to_reward_fn_input_def to_numpy_def cpu_def drawn_batch_def reshape_def
        safe_to_tensor_def to_def Let_def)
  show ?thesis
    apply (simp add: entropy_sample_def Let_def sample_count_irrelevant all_obs_count_irrelevant
        all_obs_five s five_added_rest)
    apply (simp add: util_1d_def drawn_batch_def compute_state_entropy_1d_def knn_distance_def
        unsqueeze_def isub_def idiv_def reshape_def safe_to_tensor_def to_def
        stream_mean_def stream_std_def five_added_rest)
    done
qed

lemma util_1d_fields:
  "compute_state_entropy util_1d = compute_state_entropy_1d"
  "stats_update util_1d st x = st @ np_data x"
  "stats_mean util_1d = stream_mean"
  "stats_std util_1d = stream_std"
  by (simp_all add: util_1d_def)

section \<open>The claims\<close>

text \<open>
  C1, evaluated on the scenario of the spec (capacity 10, five transitions observing
  1..5, a warmup call drawing slots 0, 2 and 4, third nearest neighbour). The occupied
  observations of the storage are 1..5, but the pool the code hands to the entropy
  estimate is five zeros: the prefix of the wrapper's own array, which \<open>add\<close> never
  writes. The raw entropies the code feeds to the accumulator are 1, 3, 5 (distances to
  zero); over the occupied observations they would be 2, 1, 2.
\<close>

theorem entropy_pool_is_unwritten_array:
  "entropy_wrapper_init util_1d 10 (Box [1]) (Box [1]) ReplayBuffer_class (const_reward_fn 7)
       1 3 [] = Inr (fresh_buffer 1 3)
   \<and> rb_occupied (replay_buffer (five_added 1 3)) = [1, 2, 3, 4, 5]
   \<and> all_obs (five_added 1 3) = [0, 0, 0, 0, 0]
   \<and> sample_count (five_added 1 3) + 1 \<le> entropy_as_reward_samples (five_added 1 3)
   \<and> map_sum id (data \<circ> observations) (snd (entropy_sample util_1d (five_added 1 3) [0, 2, 4]))
       = Inr [1, 3, 5]
   \<and> entropy_stats (fst (entropy_sample util_1d (five_added 1 3) [0, 2, 4]))
       = [Fin 1, Fin 3, Fin 5]
   \<and> compute_state_entropy util_1d
         (unsqueeze \<lparr>data = [1, 3, 5], shape = [3, 1], device = Cpu\<rparr> 1) [1, 2, 3, 4, 5] 3
       = Inr \<lparr>np_data = [Fin 2, Fin 1, Fin 2], np_shape = [3, 1]\<rparr>"
proof -
  have s: "sample (five_added 1 3) [0, 2, 4]
      = Inr \<lparr>observations = \<lparr>data = [1, 3, 5], shape = [3, 1], device = Cpu\<rparr>,
             actions = \<lparr>data = [0, 0, 0], shape = [3, 1], device = Cpu\<rparr>,
             next_observations = \<lparr>data = [0, 0, 0], shape = [3, 1], device = Cpu\<rparr>,
             dones = \<lparr>data = [False, False, False], shape = [3, 1], device = Cpu\<rparr>,
             rewards = \<lparr>data = [Fin 7, Fin 7, Fin 7], shape = [3, 1], device = Cpu\<rparr>\<rparr>"
    by (simp add: sample_def five_added_storage rb_sample_def five_added_rest const_reward_fn_def
        samples_to_reward_fn_input_def to_numpy_def cpu_def reshape_def
        safe_to_tensor_def to_def Let_def)
  have e: "entropy_sample util_1d (five_added 1 3) [0, 2, 4] =
      ((five_added 1 3)\<lparr>sample_count := 1, entropy_stats := [Fin 1, Fin 3, Fin 5]\<rparr>,
       Inr \<lparr>observations = \<lparr>data = [1, 3, 5], shape = [3, 1], device = Cpu\<rparr>,
             actions = \<lparr>data = [0, 0, 0], shape = [3, 1], device = Cpu\<rparr>,
             next_observations = \<lparr>data = [0, 0, 0], shape = [3, 1], device = Cpu\<rparr>,
             dones = \<lparr>data = [False, False, False], shape = [3, 1], device = Cpu\<rparr>,
             rewards =
               \<lparr>data = map (\<lambda>e. fdiv (fsub e (stream_mean [Fin 1, Fin 3, Fin 5]))
                                    (stream_std [Fin 1, Fin 3, Fin 5])) [Fin 1, Fin 3, Fin 5],
                shape = [3, 1], device = Cpu\<rparr>\<rparr>)"
    apply (simp add: entropy_sample_def Let_def sample_count_irrelevant all_obs_count_irrelevant
        all_obs_five s five_added_rest)
    apply (simp add: util_1d_def compute_state_entropy_1d_def knn_distance_def
        unsqueeze_def isub_def idiv_def reshape_def safe_to_tensor_def to_def five_added_rest)
    done
  have c: "compute_state_entropy util_1d
         (unsqueeze \<lparr>data = [1, 3, 5], shape = [3, 1], device = Cpu\<rparr> 1) [1, 2, 3, 4, 5] 3
       = Inr \<lparr>np_data = [Fin 2, Fin 1, Fin 2], np_shape = [3, 1]\<rparr>"
    by (simp add: util_1d_def compute_state_entropy_1d_def knn_distance_def unsqueeze_def)
  show ?thesis
    using init_fresh [of 1 3] c
    by (simp add: occupied_five all_obs_five five_added_rest e)
qed

text \<open>
  C2: every call of the entropy wrapper's \<open>sample\<close> adds exactly one to the counter and
  leaves the budget \<open>N\<close> alone, so after any sequence of calls the counter has grown by
  the number of \<open>sample\<close> calls in it. A call that brings the counter above \<open>N\<close> returns
  exactly what the base wrapper's \<open>sample\<close> returns; a call that leaves it at most \<open>N\<close>
  returns, when it returns a batch, the normalised entropy estimate as reward. Once the
  counter is above \<open>N\<close> it stays above \<open>N\<close> whatever is called afterwards.
\<close>

theorem warmup_then_steady:
  "sample_count (fst (entropy_sample u self draws)) = sample_count self + 1
   \<and> entropy_as_reward_samples (fst (entropy_sample u self draws))
       = entropy_as_reward_samples self
   \<and> sample_count (run u self calls)
       = sample_count self + int (length (filter is_Sample calls))
   \<and> entropy_as_reward_samples (run u self calls) = entropy_as_reward_samples self
   \<and> (entropy_as_reward_samples self < sample_count self + 1 \<longrightarrow>
        snd (entropy_sample u self draws) = sample self draws)
   \<and> (sample_count self + 1 \<le> entropy_as_reward_samples self \<longrightarrow>
        (\<forall>b. snd (entropy_sample u self draws) = Inr b \<longrightarrow>
          (\<exists>s raw. sample self draws = Inr s
             \<and> compute_state_entropy u (unsqueeze (observations s) 1) (all_obs self)
                  (self_k self) = Inr raw
             \<and> data (rewards b) =
                 map (\<lambda>e. fdiv (fsub e (stats_mean u (stats_update u (entropy_stats self) raw)))
                              (stats_std u (stats_update u (entropy_stats self) raw)))
                   (np_data raw))))
   \<and> (entropy_as_reward_samples self < sample_count self \<longrightarrow>
        entropy_as_reward_samples (run u self calls) < sample_count (run u self calls))"
proof -
  have warm: "\<exists>s raw. sample self draws = Inr s
             \<and> compute_state_entropy u (unsqueeze (observations s) 1) (all_obs self)
                  (self_k self) = Inr raw
             \<and> data (rewards b) =
                 map (\<lambda>e. fdiv (fsub e (stats_mean u (stats_update u (entropy_stats self) raw)))
                              (stats_std u (stats_update u (entropy_stats self) raw)))
                   (np_data raw)"
    if le: "sample_count self + 1 \<le> entropy_as_reward_samples self"
      and ret: "snd (entropy_sample u self draws) = Inr b" for b
  proof -
    have "entropy_sample u self draws = (fst (entropy_sample u self draws), Inr b)"
      using ret by (metis prod.collapse)
    from warmup_result [OF le this] show ?thesis
      by auto
  qed
  show ?thesis
    using warm
    by (simp add: entropy_sample_count entropy_sample_budget run_count run_budget steady_state)
qed

theorem warmup_then_steady_witness:
  "sample_count (run util_1d (five_added 3 3) [Sample [0, 2], Sample [0, 2]]) + 1
     \<le> entropy_as_reward_samples (run util_1d (five_added 3 3) [Sample [0, 2], Sample [0, 2]])
   \<and> snd (entropy_sample util_1d
            (run util_1d (five_added 3 3) [Sample [0, 2], Sample [0, 2]]) [0, 2])
       = Inr (drawn_batch\<lparr>rewards :=
                \<lparr>data = [Fin (- 1), Fin 1], shape = [2, 1], device = Cpu\<rparr>\<rparr>)
   \<and> (\<exists>s raw. sample (run util_1d (five_added 3 3) [Sample [0, 2], Sample [0, 2]]) [0, 2]
                = Inr s
          \<and> compute_state_entropy util_1d (unsqueeze (observations s) 1)
               (all_obs (run util_1d (five_added 3 3) [Sample [0, 2], Sample [0, 2]])) 3
               = Inr raw
          \<and> [Fin (- 1), Fin 1] =
              map (\<lambda>e. fdiv (fsub e (stream_mean ([Fin 1, Fin 3, Fin 1, Fin 3] @ np_data raw)))
                           (stream_std ([Fin 1, Fin 3, Fin 1, Fin 3] @ np_data raw)))
                (np_data raw))
   \<and> entropy_as_reward_samples
         (run util_1d (five_added 3 3) [Sample [0, 2], Sample [0, 2], Sample [0, 2]])
       < sample_count
           (run util_1d (five_added 3 3) [Sample [0, 2], Sample [0, 2], Sample [0, 2]]) + 1
   \<and> snd (entropy_sample util_1d
            (run util_1d (five_added 3 3) [Sample [0, 2], Sample [0, 2], Sample [0, 2]]) [0, 2])
       = Inr (drawn_batch\<lparr>rewards :=
                \<lparr>data = [Fin 7, Fin 7], shape = [2, 1], device = Cpu\<rparr>\<rparr>)
   \<and> sample
         (run util_1d (five_added 3 3) [Sample [0, 2], Sample [0, 2], Sample [0, 2]]) [0, 2]
       = Inr (drawn_batch\<lparr>rewards :=
                \<lparr>data = [Fin 7, Fin 7], shape = [2, 1], device = Cpu\<rparr>\<rparr>)
   \<and> entropy_as_reward_samples ((five_added 3 3)\<lparr>sample_count := 4\<rparr>)
       < sample_count ((five_added 3 3)\<lparr>sample_count := 4\<rparr>)
   \<and> entropy_as_reward_samples
         (run util_1d ((five_added 3 3)\<lparr>sample_count := 4\<rparr>)
            [Add (observe 6), Sample [0, 2], SetPos 0, SetFull False])
       < sample_count
           (run util_1d ((five_added 3 3)\<lparr>sample_count := 4\<rparr>)
              [Add (observe 6), Sample [0, 2], SetPos 0, SetFull False])"
proof -
  let ?W2 = "run util_1d (five_added 3 3) [Sample [0, 2], Sample [0, 2]]"
  let ?W3 = "run util_1d (five_added 3 3) [Sample [0, 2], Sample [0, 2], Sample [0, 2]]"
  let ?W4 = "(five_added 3 3)\<lparr>sample_count := 4\<rparr>"
  let ?B = "drawn_batch\<lparr>rewards := \<lparr>data = [Fin (- 1), Fin 1], shape = [2, 1], device = Cpu\<rparr>\<rparr>"
  have h1: "sample_count ?W2 + 1 \<le> entropy_as_reward_samples ?W2"
    by (simp add: run_count run_budget five_added_rest)
  have h2: "snd (entropy_sample util_1d ?W2 [0, 2]) = Inr ?B"
    by (simp add: third_call)
  have c1: "\<exists>s raw. sample ?W2 [0, 2] = Inr s
          \<and> compute_state_entropy util_1d (unsqueeze (observations s) 1) (all_obs ?W2)
               (self_k ?W2) = Inr raw
          \<and> data (rewards ?B) =
              map (\<lambda>e. fdiv (fsub e (stats_mean util_1d
                             (stats_update util_1d (entropy_stats ?W2) raw)))
                           (stats_std util_1d (stats_update util_1d (entropy_stats ?W2) raw)))
                (np_data raw)"
    using warmup_then_steady [of util_1d ?W2 "[0, 2]" "[]"] h1 h2 by blast
  have k: "self_k ?W2 = 3" "entropy_stats ?W2 = [Fin 1, Fin 3, Fin 1, Fin 3]"
    by (simp_all add: two_calls five_added_rest)
  have c1': "\<exists>s raw. sample ?W2 [0, 2] = Inr s
          \<and> compute_state_entropy util_1d (unsqueeze (observations s) 1) (all_obs ?W2) 3
               = Inr raw
          \<and> [Fin (- 1), Fin 1] =
              map (\<lambda>e. fdiv (fsub e (stream_mean ([Fin 1, Fin 3, Fin 1, Fin 3] @ np_data raw)))
                           (stream_std ([Fin 1, Fin 3, Fin 1, Fin 3] @ np_data raw)))
                (np_data raw)"
    using c1 unfolding k by (simp add: util_1d_def)
  have h3: "entropy_as_reward_samples ?W3 < sample_count ?W3 + 1"
    by (simp add: run_count run_budget five_added_rest)
  have c3: "snd (entropy_sample util_1d ?W3 [0, 2]) = sample ?W3 [0, 2]"
    using warmup_then_steady [of util_1d ?W3 "[0, 2]" "[]"] h3 by blast
  have h4: "entropy_as_reward_samples ?W4 < sample_count ?W4"
    by (simp add: five_added_rest)
  have c4: "entropy_as_reward_samples
         (run util_1d ?W4 [Add (observe 6), Sample [0, 2], SetPos 0, SetFull False])
       < sample_count
           (run util_1d ?W4 [Add (observe 6), Sample [0, 2], SetPos 0, SetFull False])"
    using warmup_then_steady [of util_1d ?W4 "[0, 2]"
        "[Add (observe 6), Sample [0, 2], SetPos 0, SetFull False]"] h4 by blast
  have f: "snd (entropy_sample util_1d ?W3 [0, 2])
      = Inr (drawn_batch\<lparr>rewards := \<lparr>data = [Fin 7, Fin 7], shape = [2, 1], device = Cpu\<rparr>\<rparr>)"
    by (rule fourth_call)
  show ?thesis
    using h1 h2 c1' h3 c3 h4 c4 f by (intro conjI) simp_all
qed

text \<open>
  C3: whenever the base wrapper's \<open>sample\<close> returns a batch, the storage returned a batch
  \<open>s\<close>, the reward function applied to the state, action, next state and done fields of
  \<open>s\<close> returned \<open>r\<close>, and the reward field of the result holds the elements of \<open>r\<close> with
  the shape and the device of the reward field of \<open>s\<close>.
\<close>

theorem sample_relabels_reward:
  "sample self draws = Inr b \<Longrightarrow>
     \<exists>s r. rb_sample (replay_buffer self) draws = Inr s
       \<and> reward_fn self
            \<lparr>state = to_numpy (observations s), action = to_numpy (actions s),
             next_state = to_numpy (next_observations s), done' = to_numpy (dones s)\<rparr> = Inr r
       \<and> rewards b = \<lparr>data = np_data r, shape = shape (rewards s), device = device (rewards s)\<rparr>"
  by (auto simp: sample_Inr_iff samples_to_reward_fn_input_def reshape_def safe_to_tensor_def
      to_def split: if_splits)

theorem sample_relabels_reward_witness:
  "sample (five_added 0 3) [0, 2]
     = Inr (drawn_batch\<lparr>rewards := \<lparr>data = [Fin 7, Fin 7], shape = [2, 1], device = Cpu\<rparr>\<rparr>)
   \<and> (\<exists>s r. rb_sample (replay_buffer (five_added 0 3)) [0, 2] = Inr s
       \<and> const_reward_fn 7
            \<lparr>state = to_numpy (observations s), action = to_numpy (actions s),
             next_state = to_numpy (next_observations s), done' = to_numpy (dones s)\<rparr> = Inr r
       \<and> \<lparr>data = [Fin 7, Fin 7], shape = [2, 1], device = Cpu\<rparr>
           = \<lparr>data = np_data r, shape = shape (rewards s), device = device (rewards s)\<rparr>)"
proof -
  have h: "sample (five_added 0 3) [0, 2]
     = Inr (drawn_batch\<lparr>rewards := \<lparr>data = [Fin 7, Fin 7], shape = [2, 1], device = Cpu\<rparr>\<rparr>)"
    by (rule sample_five_added)
  show ?thesis
    using h sample_relabels_reward [OF h] by (simp add: five_added_rest)
qed

text \<open>
  C4: whenever \<open>sample\<close> of either wrapper returns a batch, its observation, action,
  next-observation and done fields are the very tensors (elements, shape and device) of
  the batch that the storage's own \<open>sample\<close> returned for the same draws.
\<close>

theorem sample_frame:
  "(sample self draws = Inr b \<longrightarrow>
      (\<exists>s. rb_sample (replay_buffer self) draws = Inr s
        \<and> observations b = observations s \<and> actions b = actions s
        \<and> next_observations b = next_observations s \<and> dones b = dones s))
   \<and> (snd (entropy_sample u eself draws) = Inr b' \<longrightarrow>
      (\<exists>s. rb_sample (replay_buffer eself) draws = Inr s
        \<and> observations b' = observations s \<and> actions b' = actions s
        \<and> next_observations b' = next_observations s \<and> dones b' = dones s))"
  using entropy_sample_frame [of u eself draws b']
  by (auto simp: sample_Inr_iff)

theorem sample_frame_witness:
  "sample (five_added 1 3) [0, 2]
     = Inr (drawn_batch\<lparr>rewards := \<lparr>data = [Fin 7, Fin 7], shape = [2, 1], device = Cpu\<rparr>\<rparr>)
   \<and> snd (entropy_sample util_1d (five_added 1 3) [0, 2])
     = Inr (drawn_batch\<lparr>rewards := \<lparr>data = [Fin (- 1), Fin 1], shape = [2, 1], device = Cpu\<rparr>\<rparr>)
   \<and> (\<exists>s. rb_sample (replay_buffer (five_added 1 3)) [0, 2] = Inr s
        \<and> observations drawn_batch = observations s \<and> actions drawn_batch = actions s
        \<and> next_observations drawn_batch = next_observations s
        \<and> dones drawn_batch = dones s)"
proof -
  have h1: "sample (five_added 1 3) [0, 2]
     = Inr (drawn_batch\<lparr>rewards := \<lparr>data = [Fin 7, Fin 7], shape = [2, 1], device = Cpu\<rparr>\<rparr>)"
    by (rule sample_five_added)
  have h2: "snd (entropy_sample util_1d (five_added 1 3) [0, 2])
     = Inr (drawn_batch\<lparr>rewards := \<lparr>data = [Fin (- 1), Fin 1], shape = [2, 1], device = Cpu\<rparr>\<rparr>)"
    by (simp add: first_call)
  show ?thesis
    using h1 h2
      sample_frame [of "five_added 1 3" "[0, 2]"
        "drawn_batch\<lparr>rewards := \<lparr>data = [Fin 7, Fin 7], shape = [2, 1], device = Cpu\<rparr>\<rparr>"
        util_1d "five_added 1 3"
        "drawn_batch\<lparr>rewards := \<lparr>data = [Fin (- 1), Fin 1], shape = [2, 1], device = Cpu\<rparr>\<rparr>"]
    by simp
qed

text \<open>
  C5: reading \<open>pos\<close> (\<open>full\<close>) after setting it to \<open>v\<close> returns \<open>v\<close>; every read returns
  the field of the wrapped storage; a write through the wrapper updates that field of the
  wrapped storage and nothing else of it.
\<close>

theorem pos_full_proxy:
  "pos (pos_setter self v) = v
   \<and> full (full_setter self b) = b
   \<and> pos self = rb_pos (replay_buffer self)
   \<and> full self = rb_full (replay_buffer self)
   \<and> replay_buffer (pos_setter self v) = (replay_buffer self)\<lparr>rb_pos := v\<rparr>
   \<and> replay_buffer (full_setter self b) = (replay_buffer self)\<lparr>rb_full := b\<rparr>"
  by (simp add: pos_def pos_setter_def full_def full_setter_def)

text \<open>
  C6, as the code has it: on a warmup call that returns a batch, the accumulator is updated
  with the raw entropies first, and each reward is the raw entropy minus the mean, divided
  by the standard deviation, both read after the update. The division is not guarded:
  when that standard deviation is zero no reward is finite.
\<close>

theorem warmup_reward_normalised:
  assumes "sample_count self + 1 \<le> entropy_as_reward_samples self"
    and "entropy_sample u self draws = (self', Inr b)"
  shows "\<exists>s raw. sample self draws = Inr s
     \<and> compute_state_entropy u (unsqueeze (observations s) 1) (all_obs self) (self_k self)
          = Inr raw
     \<and> entropy_stats self' = stats_update u (entropy_stats self) raw
     \<and> rewards b =
         \<lparr>data = map (\<lambda>e. fdiv (fsub e (stats_mean u (entropy_stats self')))
                               (stats_std u (entropy_stats self'))) (np_data raw),
          shape = shape (rewards s), device = device (rewards s)\<rparr>
     \<and> (stats_std u (entropy_stats self') = Fin 0 \<longrightarrow>
          (\<forall>x \<in> set (data (rewards b)). x = NaN \<or> x = PosInf \<or> x = NegInf))"
proof -
  from warmup_result [OF assms] obtain s raw where
    r: "sample self draws = Inr s"
      "compute_state_entropy u (unsqueeze (observations s) 1) (all_obs self) (self_k self)
          = Inr raw"
      "entropy_stats self' = stats_update u (entropy_stats self) raw"
      "rewards b =
         \<lparr>data = map (\<lambda>e. fdiv (fsub e (stats_mean u (entropy_stats self')))
                               (stats_std u (entropy_stats self'))) (np_data raw),
          shape = shape (rewards s), device = device (rewards s)\<rparr>"
    by blast
  have "x = NaN \<or> x = PosInf \<or> x = NegInf"
    if "stats_std u (entropy_stats self') = Fin 0" and "x \<in> set (data (rewards b))" for x
  proof -
    from that r(4) obtain e where "x = fdiv e (Fin 0)"
      by auto
    then show ?thesis
      by (cases "fdiv e (Fin 0)") (simp_all add: fdiv_zero_not_finite)
  qed
  with r show ?thesis
    by blast
qed

theorem warmup_reward_normalised_witness:
  "sample_count (five_added 1 3) + 1 \<le> entropy_as_reward_samples (five_added 1 3)
   \<and> entropy_sample util_1d (five_added 1 3) [0, 0] =
       ((five_added 1 3)\<lparr>sample_count := 1, entropy_stats := [Fin 1, Fin 1]\<rparr>,
        Inr (drawn_batch\<lparr>observations := \<lparr>data = [1, 1], shape = [2, 1], device = Cpu\<rparr>,
               rewards := \<lparr>data = [NaN, NaN], shape = [2, 1], device = Cpu\<rparr>\<rparr>))
   \<and> stream_std [Fin 1, Fin 1] = Fin 0
   \<and> (\<exists>s raw. sample (five_added 1 3) [0, 0] = Inr s
        \<and> compute_state_entropy util_1d (unsqueeze (observations s) 1)
             (all_obs (five_added 1 3)) 3 = Inr raw
        \<and> [Fin 1, Fin 1] = [] @ np_data raw
        \<and> \<lparr>data = [NaN, NaN], shape = [2, 1], device = Cpu\<rparr> =
            \<lparr>data = map (\<lambda>e. fdiv (fsub e (stream_mean [Fin 1, Fin 1]))
                                 (stream_std [Fin 1, Fin 1])) (np_data raw),
             shape = shape (rewards s), device = device (rewards s)\<rparr>)"
proof -
  have h1: "sample_count (five_added 1 3) + 1 \<le> entropy_as_reward_samples (five_added 1 3)"
    by (simp add: five_added_rest)
  have sd: "stream_std [Fin 1, Fin 1] = Fin 0"
    by (simp add: stream_std_def)
  show ?thesis
    using h1 sd warmup_reward_normalised [OF h1 degenerate_call]
    by (simp add: degenerate_call five_added_rest util_1d_fields)
qed

text \<open>
  C6 as stated fails: a warmup call whose raw entropies are all equal leaves the
  accumulator with standard deviation zero, and the call returns a batch whose rewards
  are NaN, with no error and no guard.
\<close>

theorem zero_std_gives_nan:
  "sample_count (five_added 1 3) + 1 \<le> entropy_as_reward_samples (five_added 1 3)
   \<and> stats_std util_1d (entropy_stats (fst (entropy_sample util_1d (five_added 1 3) [0, 0])))
       = Fin 0
   \<and> map_sum id (data \<circ> rewards) (snd (entropy_sample util_1d (five_added 1 3) [0, 0]))
       = Inr [NaN, NaN]"
  by (simp add: degenerate_call five_added_rest util_1d_fields stream_std_def)




text \<open>
  C9: the class test is an identity test. Every class other than the storage class
  itself, a strict subclass of it included, is rejected by both constructors with the
  assertion error "only ReplayBuffer is supported", and that error is raised for no
  other reason.
\<close>

theorem only_exact_class_accepted:
  "(issubclass_ReplayBuffer cls \<and> cls \<noteq> ReplayBuffer_class \<longrightarrow>
      wrapper_init bsize ospace aspace cls rfn kw
        = Inl (AssertionError ''only ReplayBuffer is supported'')
      \<and> entropy_wrapper_init u bsize ospace aspace cls rfn n kk kw
        = Inl (AssertionError ''only ReplayBuffer is supported''))
   \<and> (\<not> issubclass_ReplayBuffer cls \<longrightarrow>
      wrapper_init bsize ospace aspace cls rfn kw
        = Inl (AssertionError ''only ReplayBuffer is supported'')
      \<and> entropy_wrapper_init u bsize ospace aspace cls rfn n kk kw
        = Inl (AssertionError ''only ReplayBuffer is supported''))
   \<and> (wrapper_init bsize ospace aspace cls rfn kw
        = Inl (AssertionError ''only ReplayBuffer is supported'')
      \<longleftrightarrow> cls \<noteq> ReplayBuffer_class)"
  by (auto simp: wrapper_init_cases entropy_wrapper_init_def)

theorem only_exact_class_accepted_witness:
  "issubclass_ReplayBuffer (Derived ''DictReplayBuffer'' ReplayBuffer_class)
   \<and> Derived ''DictReplayBuffer'' ReplayBuffer_class \<noteq> ReplayBuffer_class
   \<and> wrapper_init 10 (Box [1]) (Box [1]) (Derived ''DictReplayBuffer'' ReplayBuffer_class)
        (const_reward_fn 7) []
       = Inl (AssertionError ''only ReplayBuffer is supported'')
   \<and> \<not> issubclass_ReplayBuffer (Unrelated ''object'')
   \<and> entropy_wrapper_init util_1d 10 (Box [1]) (Box [1]) (Unrelated ''object'')
        (const_reward_fn 7) 1 3 []
       = Inl (AssertionError ''only ReplayBuffer is supported'')"
  using only_exact_class_accepted [of "Derived ''DictReplayBuffer'' ReplayBuffer_class"
      10 "Box [1]" "Box [1]" "const_reward_fn 7" "[]" util_1d 1 3]
    only_exact_class_accepted [of "Unrelated ''object''"
      10 "Box [1]" "Box [1]" "const_reward_fn 7" "[]" util_1d 1 3]
  by simp

text \<open>
  C10: the counter is assigned before the wrapped storage is sampled. A call in which the
  storage's \<open>sample\<close> raises, or in which the reward function raises, returns that
  exception and leaves the wrapper changed in exactly one place: the counter is one
  higher. Whatever raises, the counter has advanced by one and the budget is the same.
\<close>

theorem failed_call_advances_counter:
  "(rb_sample (replay_buffer self) draws = Inl e \<longrightarrow>
      entropy_sample u self draws = (self\<lparr>sample_count := sample_count self + 1\<rparr>, Inl e))
   \<and> (rb_sample (replay_buffer self) draws = Inr s
        \<and> reward_fn self (samples_to_reward_fn_input s) = Inl e \<longrightarrow>
      entropy_sample u self draws = (self\<lparr>sample_count := sample_count self + 1\<rparr>, Inl e))
   \<and> (snd (entropy_sample u self draws) = Inl e \<longrightarrow>
      sample_count (fst (entropy_sample u self draws)) = sample_count self + 1
      \<and> entropy_as_reward_samples (fst (entropy_sample u self draws))
          = entropy_as_reward_samples self)"
  by (simp add: entropy_sample_count entropy_sample_budget)
    (simp add: entropy_sample_def sample_count_irrelevant sample_def Let_def)

theorem failed_call_advances_counter_witness:
  "rb_sample (replay_buffer (fresh_buffer 1 3)) [0] = Inl (ValueError ''low >= high'')
   \<and> entropy_sample util_1d (fresh_buffer 1 3) [0]
       = ((fresh_buffer 1 3)\<lparr>sample_count := 1\<rparr>, Inl (ValueError ''low >= high''))
   \<and> rb_sample (replay_buffer ((five_added 1 3)\<lparr>reward_fn := failing_reward_fn\<rparr>)) [0, 2]
       = Inr drawn_batch
   \<and> failing_reward_fn (samples_to_reward_fn_input drawn_batch)
       = Inl (RuntimeError ''reward network failed'')
   \<and> entropy_sample util_1d ((five_added 1 3)\<lparr>reward_fn := failing_reward_fn\<rparr>) [0, 2]
       = ((five_added 1 3)\<lparr>reward_fn := failing_reward_fn, sample_count := 1\<rparr>,
          Inl (RuntimeError ''reward network failed''))
   \<and> sample_count (fst (entropy_sample util_1d
          ((five_added 1 3)\<lparr>reward_fn := failing_reward_fn\<rparr>) [0, 2])) = 1"
proof -
  let ?F = "(five_added 1 3)\<lparr>reward_fn := failing_reward_fn\<rparr>"
  have h1: "rb_sample (replay_buffer (fresh_buffer 1 3)) [0] = Inl (ValueError ''low >= high'')"
    by (simp add: fresh_buffer_def ReplayBuffer_init_def rb_sample_def)
  have h2: "rb_sample (replay_buffer ?F) [0, 2] = Inr drawn_batch"
    by (simp add: storage_draw)
  have h3: "reward_fn ?F (samples_to_reward_fn_input drawn_batch)
      = Inl (RuntimeError ''reward network failed'')"
    by (simp add: failing_reward_fn_def)
  have c1: "entropy_sample util_1d (fresh_buffer 1 3) [0]
       = ((fresh_buffer 1 3)\<lparr>sample_count := sample_count (fresh_buffer 1 3) + 1\<rparr>,
          Inl (ValueError ''low >= high''))"
    using failed_call_advances_counter [of "fresh_buffer 1 3" "[0]" "ValueError ''low >= high''"
        util_1d drawn_batch] h1 by blast
  have c2: "entropy_sample util_1d ?F [0, 2]
       = (?F\<lparr>sample_count := sample_count ?F + 1\<rparr>, Inl (RuntimeError ''reward network failed''))"
    using failed_call_advances_counter [of ?F "[0, 2]" "RuntimeError ''reward network failed''"
        util_1d drawn_batch] h2 h3 by blast
  have c3: "sample_count (fst (entropy_sample util_1d ?F [0, 2])) = sample_count ?F + 1"
    using failed_call_advances_counter [of ?F "[0, 2]" "RuntimeError ''reward network failed''"
        util_1d drawn_batch] c2 by simp
  show ?thesis
    using h1 h2 h3 c1 c2 c3
    by (simp add: five_added_rest fresh_buffer_def failing_reward_fn_def)
qed

end
